theory Spec2Isabelle
  imports Main "HOL-Library.Multiset" "HOL-Library.Product_Lexorder" "HOL-Library.List_Lexorder"
    "HOL-Library.Char_ord" "HOL-Library.Word"
begin

section \<open>A library catalog: models and request handlers\<close>

text \<open>
  The catalog application declares four models (\<^verbatim>\<open>catalog/models.py\<close>) and a set of
  request handlers (\<^verbatim>\<open>catalog/views.py\<close>, \<^verbatim>\<open>catalog/admin.py\<close>).  The models are
  records, a table is the list of its rows, and a handler is a function from the catalog
  to the catalog after the request together with the response.  What the application
  takes from outside (the clock, the URL resolver, the renewal form class, the collation
  of the database) is a parameter of the function that uses it.
\<close>

subsection \<open>Dates\<close>

text \<open>
  A \<^verbatim>\<open>datetime.date\<close> is its proleptic Gregorian ordinal (\<^verbatim>\<open>date.toordinal()\<close>),
  from 1 (\<^verbatim>\<open>date.min\<close>) to 3652059 (\<^verbatim>\<open>date.max\<close>); dates compare as their
  ordinals do.  A \<^verbatim>\<open>timedelta\<close> built from weeks is a whole number of days.
\<close>

type_synonym date = int

type_synonym timedelta = int

datatype exn =
    OverflowError
  | NoReverseMatch
  | TypeError
  | RestrictedError
  | IntegrityError
  | DoesNotExist
  | ValidationError "(string \<times> string) list"

definition MAXORDINAL :: int where
  "MAXORDINAL = 3652059"

definition timedelta_weeks :: "int \<Rightarrow> timedelta" where
  \<comment> \<open>\<^verbatim>\<open>datetime.timedelta(weeks=w)\<close>, in days\<close>
  "timedelta_weeks w = 7 * w"

definition date_add :: "date \<Rightarrow> timedelta \<Rightarrow> exn + date" where
  \<comment> \<open>\<^verbatim>\<open>date.__add__\<close>: the sum of the ordinals, or OverflowError out of range\<close>
  "date_add d days =
     (let o' = d + days in if 0 < o' \<and> o' \<le> MAXORDINAL then Inr o' else Inl OverflowError)"

subsection \<open>Models\<close>

text \<open>
  Texts are \<^typ>\<open>string\<close>, one \<^typ>\<open>char\<close> for each character of the text.  A nullable
  column is an \<^typ>\<open>'a option\<close>; a foreign key holds the primary key of the row it
  refers to.  The many-to-many field \<^verbatim>\<open>Book.genre\<close> is the list of the keys of the
  book's genres.
\<close>

type_synonym uuid = "128 word"

record Genre =
  id :: nat
  name :: string

record Book =
  id :: nat
  title :: string
  author :: "nat option"
  summary :: string
  isbn :: string
  genre :: "nat list"

record BookInstance =
  id :: uuid
  book :: "nat option"
  imprint :: string
  due_back :: "date option"
  borrower :: "nat option"
  status :: string
  language :: string

record Author =
  id :: nat
  first_name :: string
  last_name :: string
  date_of_birth :: "date option"
  date_of_death :: "date option"

record catalog =
  genres :: "Genre list"
  authors :: "Author list"
  books :: "Book list"
  instances :: "BookInstance list"

definition is_overdue :: "date \<Rightarrow> BookInstance \<Rightarrow> bool" where
  \<comment> \<open>\<^verbatim>\<open>bool(self.due_back and date.today() > self.due_back)\<close>: None is falsy, every
      date is truthy; the first argument is \<^verbatim>\<open>date.today()\<close>\<close>
  "is_overdue today self =
     (case due_back self of None \<Rightarrow> False | Some d \<Rightarrow> today > d)"

definition str_builtin_id :: string where
  \<comment> \<open>\<^verbatim>\<open>str(id)\<close> of the builtin function \<^verbatim>\<open>id\<close>\<close>
  "str_builtin_id = ''<built-in function id>''"

definition Book_get_absolute_url ::
  "(string \<Rightarrow> string list \<Rightarrow> exn + string) \<Rightarrow> Book \<Rightarrow> exn + string" where
  \<comment> \<open>\<^verbatim>\<open>reverse('book-detail', args=[str(id)])\<close>; the resolver \<^verbatim>\<open>reverse\<close> is the
      first argument\<close>
  "Book_get_absolute_url reverse self = reverse ''book-detail'' [str_builtin_id]"

subsection \<open>Requests and responses\<close>

datatype user = AnonymousUser | User nat "string \<Rightarrow> bool"

fun is_authenticated :: "user \<Rightarrow> bool" where
  "is_authenticated AnonymousUser = False"
| "is_authenticated (User k perms) = True"

fun has_perm :: "user \<Rightarrow> string \<Rightarrow> bool" where
  "has_perm AnonymousUser perm = False"
| "has_perm (User k perms) perm = perms perm"

definition has_perms :: "user \<Rightarrow> string list \<Rightarrow> bool" where
  "has_perms u perm_list = list_all (has_perm u) perm_list"

type_synonym querydict = "(string \<times> string) list"

record request =
  "method" :: string
  user :: user
  POST :: querydict

text \<open>
  The class \<^verbatim>\<open>RenewBookForm\<close> of \<^verbatim>\<open>catalog/forms.py\<close> is a parameter: whether the
  data bound to the form is valid, and the cleaned \<^verbatim>\<open>renewal_date\<close> when it is.
\<close>

record RenewBookForm_class =
  is_valid :: "querydict \<Rightarrow> bool"
  cleaned_renewal_date :: "querydict \<Rightarrow> date option"

datatype form = BoundForm querydict | InitialForm date

record renew_context =
  ctx_form :: form
  ctx_book_instance :: BookInstance

datatype 'c response =
    HttpResponseRedirect string
  | RedirectToLogin
  | PermissionDenied
  | Http404
  | Render string 'c
  | ServerError exn

subsection \<open>The renewal action\<close>

definition get_BookInstance_or_404 :: "catalog \<Rightarrow> uuid \<Rightarrow> BookInstance option" where
  "get_BookInstance_or_404 db pk = find (\<lambda>r. BookInstance.id r = pk) (instances db)"

definition save_BookInstance :: "BookInstance \<Rightarrow> catalog \<Rightarrow> catalog" where
  \<comment> \<open>\<^verbatim>\<open>Model.save\<close>: the row with the object's key is overwritten; with no such row
      the object is inserted\<close>
  "save_BookInstance obj db =
     (if \<exists>r \<in> set (instances db). BookInstance.id r = BookInstance.id obj
      then db\<lparr>instances :=
              map (\<lambda>r. if BookInstance.id r = BookInstance.id obj then obj else r) (instances db)\<rparr>
      else db\<lparr>instances := instances db @ [obj]\<rparr>)"

definition login_required ::
  "(request \<Rightarrow> 'a \<Rightarrow> catalog \<Rightarrow> catalog \<times> 'c response) \<Rightarrow>
   request \<Rightarrow> 'a \<Rightarrow> catalog \<Rightarrow> catalog \<times> 'c response" where
  "login_required view request args db =
     (if is_authenticated (user request) then view request args db
      else (db, RedirectToLogin))"

definition permission_required ::
  "string \<Rightarrow> (request \<Rightarrow> 'a \<Rightarrow> catalog \<Rightarrow> catalog \<times> 'c response) \<Rightarrow>
   request \<Rightarrow> 'a \<Rightarrow> catalog \<Rightarrow> catalog \<times> 'c response" where
  \<comment> \<open>with \<^verbatim>\<open>raise_exception=True\<close>\<close>
  "permission_required perm view request args db =
     (if has_perms (user request) [perm] then view request args db
      else (db, PermissionDenied))"

definition renew_book_librarian_body ::
  "(string \<Rightarrow> string list \<Rightarrow> exn + string) \<Rightarrow> RenewBookForm_class \<Rightarrow> date \<Rightarrow>
   request \<Rightarrow> uuid \<Rightarrow> catalog \<Rightarrow> catalog \<times> renew_context response" where
  "renew_book_librarian_body reverse RenewBookForm today request pk db =
     (case get_BookInstance_or_404 db pk of
        None \<Rightarrow> (db, Http404)
      | Some book_instance \<Rightarrow>
          if method request = ''POST'' then
            if is_valid RenewBookForm (POST request) then
              let book_instance' =
                    book_instance\<lparr>due_back := cleaned_renewal_date RenewBookForm (POST request)\<rparr>;
                  db' = save_BookInstance book_instance' db
              in (case reverse ''borrowed-books'' [] of
                    Inl e \<Rightarrow> (db', ServerError e)
                  | Inr url \<Rightarrow> (db', HttpResponseRedirect url))
            else (db, Render ''catalog/book_renew_librarian.html''
                        \<lparr>ctx_form = BoundForm (POST request), ctx_book_instance = book_instance\<rparr>)
          else
            (case date_add today (timedelta_weeks 3) of
               Inl e \<Rightarrow> (db, ServerError e)
             | Inr proposed_renewal_date \<Rightarrow>
                 (db, Render ''catalog/book_renew_librarian.html''
                        \<lparr>ctx_form = InitialForm proposed_renewal_date,
                         ctx_book_instance = book_instance\<rparr>)))"

definition renew_book_librarian ::
  "(string \<Rightarrow> string list \<Rightarrow> exn + string) \<Rightarrow> RenewBookForm_class \<Rightarrow> date \<Rightarrow>
   request \<Rightarrow> uuid \<Rightarrow> catalog \<Rightarrow> catalog \<times> renew_context response" where
  "renew_book_librarian reverse RenewBookForm today =
     login_required
       (permission_required ''catalog.can_mark_returned''
          (renew_book_librarian_body reverse RenewBookForm today))"

subsection \<open>Querysets and list views\<close>

text \<open>
  A queryset is evaluated to the list of its rows.  \<^verbatim>\<open>order_by\<close> and a model's
  \<^verbatim>\<open>Meta.ordering\<close> sort by a key; rows with equal keys keep the order of the table.
  Three things are the database's: how texts collate (a function \<open>collate\<close> into a linear
  order), whether NULL sorts before or after every date (\<open>nulls_first\<close>), and the order
  in which a query without ordering returns the rows of a table (a function \<open>scan\<close>);
  Book, which declares no \<^verbatim>\<open>Meta.ordering\<close>, is listed in that order.  The
  \<^verbatim>\<open>page\<close> parameter of a list view is absent, the empty text (both mean page 1, by
  \<^verbatim>\<open>page = ... or 1\<close>), a text that \<^verbatim>\<open>int\<close> reads as an integer, the word
  \<^verbatim>\<open>last\<close>, or any other text; per_page is positive wherever a paginator is built.
\<close>

definition order_by :: "('r \<Rightarrow> 'k::linorder) \<Rightarrow> 'r list \<Rightarrow> 'r list" where
  "order_by key rows = sort_key key rows"

definition due_back_key :: "bool \<Rightarrow> date option \<Rightarrow> nat \<times> int" where
  "due_back_key nulls_first d =
     (case d of
        None \<Rightarrow> (if nulls_first then 0 else 1, 0)
      | Some x \<Rightarrow> (if nulls_first then 1 else 0, x))"

definition Genre_ordering :: "(string \<Rightarrow> 'k::linorder) \<Rightarrow> Genre \<Rightarrow> 'k" where
  "Genre_ordering collate g = collate (name g)"

definition Author_ordering :: "(string \<Rightarrow> 'k::linorder) \<Rightarrow> Author \<Rightarrow> 'k \<times> 'k" where
  "Author_ordering collate a = (collate (last_name a), collate (first_name a))"

definition BookInstance_ordering :: "bool \<Rightarrow> BookInstance \<Rightarrow> nat \<times> int" where
  "BookInstance_ordering nulls_first r = due_back_key nulls_first (due_back r)"

definition Genre_objects_all :: "(string \<Rightarrow> 'k::linorder) \<Rightarrow> catalog \<Rightarrow> Genre list" where
  "Genre_objects_all collate db = order_by (Genre_ordering collate) (genres db)"

definition Author_objects_all :: "(string \<Rightarrow> 'k::linorder) \<Rightarrow> catalog \<Rightarrow> Author list" where
  "Author_objects_all collate db = order_by (Author_ordering collate) (authors db)"

definition Book_objects_all :: "(Book list \<Rightarrow> Book list) \<Rightarrow> catalog \<Rightarrow> Book list" where
  \<comment> \<open>Book declares no \<^verbatim>\<open>Meta.ordering\<close>: the rows come as the database scans the table\<close>
  "Book_objects_all scan db = scan (books db)"

definition BookInstance_objects_all :: "bool \<Rightarrow> catalog \<Rightarrow> BookInstance list" where
  "BookInstance_objects_all nulls_first db =
     order_by (BookInstance_ordering nulls_first) (instances db)"

definition LoanedBooksByUserListView_get_queryset ::
  "bool \<Rightarrow> user \<Rightarrow> catalog \<Rightarrow> exn + BookInstance list" where
  "LoanedBooksByUserListView_get_queryset nulls_first u db =
     (case u of
        AnonymousUser \<Rightarrow> Inl TypeError
      | User k perms \<Rightarrow>
          Inr (order_by (\<lambda>r. due_back_key nulls_first (due_back r))
                 (filter (\<lambda>r. status r = ''o'')
                    (filter (\<lambda>r. borrower r = Some k) (instances db)))))"

definition BorrowedBooksListView_get_queryset :: "bool \<Rightarrow> catalog \<Rightarrow> BookInstance list" where
  "BorrowedBooksListView_get_queryset nulls_first db =
     order_by (\<lambda>r. due_back_key nulls_first (due_back r))
       (filter (\<lambda>r. status r = ''o'') (instances db))"

datatype page_kwarg = NoPage | PageEmpty | PageInt int | PageLast | PageOther

definition num_pages :: "nat \<Rightarrow> 'a list \<Rightarrow> nat" where
  "num_pages per_page object_list = (max 1 (length object_list) + per_page - 1) div per_page"

definition paginator_page :: "'a list \<Rightarrow> nat \<Rightarrow> int \<Rightarrow> 'a list option" where
  "paginator_page object_list per_page number =
     (if number < 1 \<or> int (num_pages per_page object_list) < number then None
      else
        let bottom = (nat number - 1) * per_page;
            top = (if length object_list \<le> bottom + per_page then length object_list
                   else bottom + per_page)
        in Some (take (top - bottom) (drop bottom object_list)))"

definition paginate_queryset :: "'a list \<Rightarrow> nat \<Rightarrow> page_kwarg \<Rightarrow> 'a list option" where
  "paginate_queryset queryset page_size page =
     (case page of
        NoPage \<Rightarrow> paginator_page queryset page_size 1
      | PageEmpty \<Rightarrow> paginator_page queryset page_size 1
      | PageInt n \<Rightarrow> paginator_page queryset page_size n
      | PageLast \<Rightarrow> paginator_page queryset page_size (int (num_pages page_size queryset))
      | PageOther \<Rightarrow> None)"

record BookListView_context =
  book_list :: "Book list"
  some_data :: string

definition BookListView_paginate_by :: nat where
  "BookListView_paginate_by = 10"

definition AuthorListView_paginate_by :: nat where
  "AuthorListView_paginate_by = 10"

definition BookListView ::
  "(Book list \<Rightarrow> Book list) \<Rightarrow> page_kwarg \<Rightarrow> catalog \<Rightarrow> BookListView_context response" where
  "BookListView scan page db =
     (case paginate_queryset (Book_objects_all scan db) BookListView_paginate_by page of
        None \<Rightarrow> Http404
      | Some object_list \<Rightarrow>
          Render ''catalog/book_list.html''
            \<lparr>book_list = object_list, some_data = ''This is just some data''\<rparr>)"

definition AuthorListView ::
  "(string \<Rightarrow> 'k::linorder) \<Rightarrow> page_kwarg \<Rightarrow> catalog \<Rightarrow> Author list response" where
  "AuthorListView collate page db =
     (case paginate_queryset (Author_objects_all collate db) AuthorListView_paginate_by page of
        None \<Rightarrow> Http404
      | Some author_list \<Rightarrow> Render ''catalog/author_list.html'' author_list)"

subsection \<open>Deleting rows\<close>

text \<open>
  \<^verbatim>\<open>Model.delete\<close> looks at every foreign key that points to the row and follows the
  \<^verbatim>\<open>on_delete\<close> it declares: \<^verbatim>\<open>SET_NULL\<close> for \<^verbatim>\<open>Book.author\<close>,
  \<^verbatim>\<open>RESTRICT\<close> for \<^verbatim>\<open>BookInstance.book\<close>.  The rows of the join table behind
  \<^verbatim>\<open>Book.genre\<close> go with the book or the genre they belong to.  An operation that
  raises has written nothing: \<open>after\<close> is the catalog once the request is over.
\<close>

datatype on_delete = SET_NULL | RESTRICT

definition Book_author_on_delete :: on_delete where
  "Book_author_on_delete = SET_NULL"

definition BookInstance_book_on_delete :: on_delete where
  "BookInstance_book_on_delete = RESTRICT"

fun on_delete_related ::
  "on_delete \<Rightarrow> ('r \<Rightarrow> 'k option) \<Rightarrow> ('r \<Rightarrow> 'r) \<Rightarrow> 'k \<Rightarrow> 'r list \<Rightarrow> exn + 'r list" where
  "on_delete_related SET_NULL fk set_null k rows =
     Inr (map (\<lambda>r. if fk r = Some k then set_null r else r) rows)"
| "on_delete_related RESTRICT fk set_null k rows =
     (if \<exists>r \<in> set rows. fk r = Some k then Inl RestrictedError else Inr rows)"

definition Author_delete :: "nat \<Rightarrow> catalog \<Rightarrow> exn + catalog" where
  "Author_delete pk db =
     (case find (\<lambda>a. Author.id a = pk) (authors db) of
        None \<Rightarrow> Inl DoesNotExist
      | Some obj \<Rightarrow>
          (case on_delete_related Book_author_on_delete author (\<lambda>b. b\<lparr>author := None\<rparr>) pk
                  (books db) of
             Inl e \<Rightarrow> Inl e
           | Inr books' \<Rightarrow>
               Inr (db\<lparr>authors := filter (\<lambda>a. Author.id a \<noteq> pk) (authors db),
                       books := books'\<rparr>)))"

definition Book_delete :: "nat \<Rightarrow> catalog \<Rightarrow> exn + catalog" where
  "Book_delete pk db =
     (case find (\<lambda>b. Book.id b = pk) (books db) of
        None \<Rightarrow> Inl DoesNotExist
      | Some obj \<Rightarrow>
          (case on_delete_related BookInstance_book_on_delete book (\<lambda>r. r\<lparr>book := None\<rparr>) pk
                  (instances db) of
             Inl e \<Rightarrow> Inl e
           | Inr instances' \<Rightarrow>
               Inr (db\<lparr>books := filter (\<lambda>b. Book.id b \<noteq> pk) (books db),
                       instances := instances'\<rparr>)))"

definition Genre_delete :: "nat \<Rightarrow> catalog \<Rightarrow> exn + catalog" where
  "Genre_delete pk db =
     (case find (\<lambda>g. Genre.id g = pk) (genres db) of
        None \<Rightarrow> Inl DoesNotExist
      | Some obj \<Rightarrow>
          Inr (db\<lparr>genres := filter (\<lambda>g. Genre.id g \<noteq> pk) (genres db),
                  books := map (\<lambda>b. b\<lparr>genre := filter (\<lambda>g. g \<noteq> pk) (genre b)\<rparr>) (books db)\<rparr>))"

definition after :: "catalog \<Rightarrow> exn + catalog \<Rightarrow> catalog" where
  "after db outcome = (case outcome of Inl e \<Rightarrow> db | Inr db' \<Rightarrow> db')"

subsection \<open>Creating and changing books\<close>

text \<open>
  \<^verbatim>\<open>BookCreate\<close> and the admin registered for Book save through a model form over all
  fields.  \<open>Book_form\<close> holds the submitted values as the form fields hand them on; the
  form reports, field by field, a missing value, a text longer than \<^verbatim>\<open>max_length\<close>, a
  key that names no row, and for the \<^verbatim>\<open>unique\<close> field \<^verbatim>\<open>isbn\<close> a value another book
  has.  The key of a new row is the database's choice (\<open>new_pk\<close>); a key in use is
  refused.
\<close>

record Book_form =
  form_title :: string
  form_author :: "nat option"
  form_summary :: string
  form_isbn :: string
  form_genre :: "nat list"

definition CharField_errors :: "string \<Rightarrow> nat \<Rightarrow> string \<Rightarrow> (string \<times> string) list" where
  "CharField_errors field max_length v =
     (if v = [] then [(field, ''required'')]
      else if max_length < length v then [(field, ''max_length'')]
      else [])"

definition Book_form_errors :: "catalog \<Rightarrow> nat option \<Rightarrow> Book_form \<Rightarrow> (string \<times> string) list" where
  "Book_form_errors db self_pk f =
     CharField_errors ''title'' 200 (form_title f)
     @ (case form_author f of
          None \<Rightarrow> [(''author'', ''required'')]
        | Some a \<Rightarrow>
            if \<exists>r \<in> set (authors db). Author.id r = a then []
            else [(''author'', ''invalid_choice'')])
     @ CharField_errors ''summary'' 1000 (form_summary f)
     @ (if CharField_errors ''isbn'' 13 (form_isbn f) \<noteq> []
        then CharField_errors ''isbn'' 13 (form_isbn f)
        else if \<exists>b \<in> set (books db). isbn b = form_isbn f \<and> Some (Book.id b) \<noteq> self_pk
        then [(''isbn'', ''unique'')]
        else [])
     @ (if form_genre f = [] then [(''genre'', ''required'')]
        else if \<exists>g \<in> set (form_genre f). \<not> (\<exists>r \<in> set (genres db). Genre.id r = g)
        then [(''genre'', ''invalid_choice'')]
        else [])"

definition Book_of_form :: "nat \<Rightarrow> Book_form \<Rightarrow> Book" where
  "Book_of_form pk f =
     \<lparr>Book.id = pk, title = form_title f, author = form_author f, summary = form_summary f,
      isbn = form_isbn f, genre = form_genre f\<rparr>"

definition Book_create :: "nat \<Rightarrow> Book_form \<Rightarrow> catalog \<Rightarrow> exn + catalog" where
  "Book_create new_pk f db =
     (if Book_form_errors db None f \<noteq> [] then Inl (ValidationError (Book_form_errors db None f))
      else if \<exists>b \<in> set (books db). Book.id b = new_pk then Inl IntegrityError
      else Inr (db\<lparr>books := books db @ [Book_of_form new_pk f]\<rparr>))"

definition Book_update :: "nat \<Rightarrow> Book_form \<Rightarrow> catalog \<Rightarrow> exn + catalog" where
  "Book_update pk f db =
     (case find (\<lambda>b. Book.id b = pk) (books db) of
        None \<Rightarrow> Inl DoesNotExist
      | Some obj \<Rightarrow>
          if Book_form_errors db (Some pk) f \<noteq> []
          then Inl (ValidationError (Book_form_errors db (Some pk) f))
          else Inr (db\<lparr>books :=
                     map (\<lambda>b. if Book.id b = pk then Book_of_form pk f else b) (books db)\<rparr>))"

subsection \<open>Reachable catalogs\<close>

text \<open>
  The catalogs the handlers can produce from the empty one, over-approximated: a handler
  that leaves the table of books alone may change the other tables in any way; the table
  of books changes by creating, changing or deleting a book, by deleting an author (which
  nulls \<^verbatim>\<open>Book.author\<close>) and by deleting a genre.
\<close>

inductive reachable :: "catalog \<Rightarrow> bool" where
  initial: "reachable \<lparr>genres = [], authors = [], books = [], instances = []\<rparr>"
| other_tables:
    "reachable db \<Longrightarrow> reachable (db\<lparr>genres := genres', authors := authors', instances := instances'\<rparr>)"
| book_create: "reachable db \<Longrightarrow> Book_create new_pk f db = Inr db' \<Longrightarrow> reachable db'"
| book_update: "reachable db \<Longrightarrow> Book_update pk f db = Inr db' \<Longrightarrow> reachable db'"
| book_delete: "reachable db \<Longrightarrow> Book_delete pk db = Inr db' \<Longrightarrow> reachable db'"
| author_delete: "reachable db \<Longrightarrow> Author_delete pk db = Inr db' \<Longrightarrow> reachable db'"
| genre_delete: "reachable db \<Longrightarrow> Genre_delete pk db = Inr db' \<Longrightarrow> reachable db'"

definition isbn_invariant :: "catalog \<Rightarrow> bool" where
  "isbn_invariant db =
     (list_all (\<lambda>b. length (isbn b) \<le> 13) (books db) \<and> distinct (map isbn (books db)))"

definition Book_pk_invariant :: "catalog \<Rightarrow> bool" where
  "Book_pk_invariant db = distinct (map Book.id (books db))"

subsection \<open>A small catalog\<close>

text \<open>Concrete data on which the theorems below are instantiated.\<close>

definition example_reverse :: "string \<Rightarrow> string list \<Rightarrow> exn + string" where
  "example_reverse viewname args =
     (if viewname = ''borrowed-books'' \<and> args = [] then Inr ''/catalog/borrowed/''
      else Inl NoReverseMatch)"

definition example_form :: RenewBookForm_class where
  "example_form = \<lparr>is_valid = (\<lambda>q. q = [(''renewal_date'', ''2024-01-20'')]),
                    cleaned_renewal_date = (\<lambda>q. Some 738905)\<rparr>"

definition example_copy :: BookInstance where
  "example_copy = \<lparr>BookInstance.id = 7, book = Some 1, imprint = ''Penguin, 1999'',
                    due_back = Some 738880, borrower = Some 5, status = ''o'', language = ''en''\<rparr>"

definition example_copy2 :: BookInstance where
  "example_copy2 = \<lparr>BookInstance.id = 8, book = Some 1, imprint = ''Penguin, 2004'',
                    due_back = None, borrower = None, status = ''a'', language = ''en''\<rparr>"

definition example_copy3 :: BookInstance where
  "example_copy3 = \<lparr>BookInstance.id = 9, book = Some 1, imprint = ''Puffin, 2016'',
                     due_back = Some 738870, borrower = Some 6, status = ''o'', language = ''en''\<rparr>"

definition example_copy4 :: BookInstance where
  "example_copy4 = \<lparr>BookInstance.id = 10, book = Some 1, imprint = ''Puffin, 2016'',
                     due_back = Some 738860, borrower = Some 5, status = ''o'', language = ''de''\<rparr>"

definition le_guin :: Author where
  "le_guin = \<lparr>Author.id = 1, first_name = ''Ursula'', last_name = ''Le Guin'',
               date_of_birth = Some 706316, date_of_death = Some 736716\<rparr>"

definition austen :: Author where
  "austen = \<lparr>Author.id = 2, first_name = ''Jane'', last_name = ''Austen'',
              date_of_birth = Some 647282, date_of_death = Some 662526\<rparr>"

definition earthsea :: Book where
  "earthsea = \<lparr>Book.id = 1, title = ''A Wizard of Earthsea'', author = Some 1,
                summary = ''Ged'', isbn = ''9780141354910'', genre = [1]\<rparr>"

definition example_catalog :: catalog where
  "example_catalog =
     \<lparr>genres = [\<lparr>Genre.id = 1, name = ''Fantasy''\<rparr>],
      authors = [le_guin, austen],
      books = [earthsea],
      instances = [example_copy2, example_copy, example_copy3, example_copy4]\<rparr>"

definition librarian :: user where
  "librarian = User 2 (\<lambda>perm. perm = ''catalog.can_mark_returned'')"

definition member :: user where
  "member = User 5 (\<lambda>perm. False)"

definition example_post :: querydict where
  "example_post = [(''renewal_date'', ''2024-01-20'')]"

definition binary_collation :: "string \<Rightarrow> string" where
  "binary_collation s = s"

definition earthsea_form :: Book_form where
  "earthsea_form = \<lparr>form_title = ''A Wizard of Earthsea'', form_author = Some 1,
                     form_summary = ''Ged'', form_isbn = ''9780141354910'', form_genre = [1]\<rparr>"

definition emma_form :: Book_form where
  "emma_form = \<lparr>form_title = ''Emma'', form_author = Some 2,
                 form_summary = ''Emma Woodhouse'', form_isbn = ''123'', form_genre = [1]\<rparr>"

definition emma :: Book where
  "emma = \<lparr>Book.id = 2, title = ''Emma'', author = Some 2, summary = ''Emma Woodhouse'',
            isbn = ''123'', genre = [1]\<rparr>"

definition two_books :: catalog where
  "two_books = example_catalog\<lparr>books := [earthsea, emma]\<rparr>"

definition author_row :: "nat \<Rightarrow> string \<Rightarrow> string \<Rightarrow> Author" where
  "author_row k given family =
     \<lparr>Author.id = k, first_name = given, last_name = family,
      date_of_birth = None, date_of_death = None\<rparr>"

definition book_row :: "nat \<Rightarrow> string \<Rightarrow> nat \<Rightarrow> string \<Rightarrow> Book" where
  "book_row k t a i =
     \<lparr>Book.id = k, title = t, author = Some a, summary = ''A novel'', isbn = i, genre = [1]\<rparr>"

definition library :: catalog where
  "library =
     \<lparr>genres = [\<lparr>Genre.id = 1, name = ''Novel''\<rparr>, \<lparr>Genre.id = 2, name = ''Gothic''\<rparr>,
                \<lparr>Genre.id = 3, name = ''Fantasy''\<rparr>],
      authors =
        [author_row 1 ''Virginia'' ''Woolf'', author_row 2 ''Emily'' ''Bronte'',
         author_row 3 ''Jane'' ''Austen'', author_row 4 ''Charlotte'' ''Bronte'',
         author_row 5 ''Mary'' ''Shelley'', author_row 6 ''George'' ''Eliot'',
         author_row 7 ''Anne'' ''Bronte'', author_row 8 ''Thomas'' ''Hardy'',
         author_row 9 ''Charles'' ''Dickens'', author_row 10 ''Wilkie'' ''Collins'',
         author_row 11 ''Elizabeth'' ''Gaskell'', author_row 12 ''Ursula'' ''Le Guin''],
      books =
        [book_row 1 ''Orlando'' 1 ''9780199536597'', book_row 2 ''Wuthering Heights'' 2 ''9780141439556'',
         book_row 3 ''Emma'' 3 ''9780141439587'', book_row 4 ''Jane Eyre'' 4 ''9780141441146'',
         book_row 5 ''Frankenstein'' 5 ''9780141439471'', book_row 6 ''Middlemarch'' 6 ''9780141439549'',
         book_row 7 ''Agnes Grey'' 7 ''9780140432107'', book_row 8 ''Jude the Obscure'' 8 ''9780140435382'',
         book_row 9 ''Bleak House'' 9 ''9780141439723'', book_row 10 ''The Moonstone'' 10 ''9780140434088'',
         book_row 11 ''North and South'' 11 ''9780140434248''],
      instances = []\<rparr>"

definition table_order :: "Book list \<Rightarrow> Book list" where
  "table_order rows = rows"

section \<open>Properties\<close>

subsection \<open>Helper lemmas\<close>

lemma get_BookInstance_or_404_Some:
  "get_BookInstance_or_404 db pk = Some bi \<Longrightarrow> BookInstance.id bi = pk \<and> bi \<in> set (instances db)"
  unfolding get_BookInstance_or_404_def by (auto simp: find_Some_iff)

lemma pk_unique:
  "distinct (map BookInstance.id rows) \<Longrightarrow> r \<in> set rows \<Longrightarrow> r' \<in> set rows \<Longrightarrow>
   BookInstance.id r = BookInstance.id r' \<Longrightarrow> r = r'"
  by (meson distinct_map inj_on_eq_iff)

lemma find_map_overwrite:
  "find (\<lambda>r. BookInstance.id r = pk) rows = Some bi \<Longrightarrow> BookInstance.id obj = pk \<Longrightarrow>
   find (\<lambda>r. BookInstance.id r = pk) (map (\<lambda>r. if BookInstance.id r = pk then obj else r) rows) = Some obj"
  by (induction rows) (auto split: if_splits)

lemma renew_unfold:
  "renew_book_librarian reverse F today request pk db =
    (if is_authenticated (user request) then
       if has_perm (user request) ''catalog.can_mark_returned'' then
         renew_book_librarian_body reverse F today request pk db
       else (db, PermissionDenied)
     else (db, RedirectToLogin))"
  by (simp add: renew_book_librarian_def login_required_def permission_required_def has_perms_def)

lemma renew_body_success:
  assumes "get_BookInstance_or_404 db pk = Some bi" "method request = ''POST''" "is_valid F (POST request)"
  shows "fst (renew_book_librarian_body reverse F today request pk db) =
     save_BookInstance (bi\<lparr>due_back := cleaned_renewal_date F (POST request)\<rparr>) db"
  using assms by (simp add: renew_book_librarian_body_def Let_def split: sum.split)

lemma renew_body_unchanged:
  assumes "\<not> (method request = ''POST'' \<and> is_valid F (POST request))"
  shows "fst (renew_book_librarian_body reverse F today request pk db) = db"
  using assms by (auto simp add: renew_book_librarian_body_def Let_def split: sum.split option.split)

lemmas example_defs = example_reverse_def example_form_def example_copy_def example_copy2_def
  example_copy3_def example_copy4_def le_guin_def austen_def earthsea_def
  example_catalog_def librarian_def member_def example_post_def

lemma example_get: "get_BookInstance_or_404 example_catalog 7 = Some example_copy"
  by (simp add: get_BookInstance_or_404_def example_defs)

lemma order_by_sorted: "sorted (map key (order_by key rows))"
  by (simp add: order_by_def)

lemma order_by_mset: "mset (order_by key rows) = mset rows"
  by (simp add: order_by_def)

lemma due_back_key_le:
  "due_back_key nf (Some d) \<le> due_back_key nf (Some d') \<longleftrightarrow> d \<le> d'"
  by (auto simp: due_back_key_def less_eq_prod_def)

lemma sorted_dates_of_sorted_keys:
  "sorted (map (\<lambda>r. due_back_key nf (due_back r)) qs) \<Longrightarrow> sorted (List.map_filter due_back qs)"
proof (induction qs)
  case Nil
  then show ?case by simp
next
  case (Cons r qs)
  then have tl: "sorted (List.map_filter due_back qs)" by simp
  show ?case
  proof (cases "due_back r")
    case None
    with tl show ?thesis by simp
  next
    case (Some d)
    have "d \<le> d'" if "d' \<in> set (List.map_filter due_back qs)" for d'
    proof -
      from that obtain y where y: "y \<in> set qs" "due_back y = Some d'"
        by (auto simp: List.map_filter_def)
      from Cons.prems
      have "\<forall>z\<in>set qs. due_back_key nf (due_back r) \<le> due_back_key nf (due_back z)"
        by simp
      with y Some have "due_back_key nf (Some d) \<le> due_back_key nf (Some d')"
        by fastforce
      then show ?thesis by (simp add: due_back_key_le)
    qed
    with tl Some show ?thesis by simp
  qed
qed

lemma concat_pages_take:
  "concat (map (\<lambda>i. take p (drop (i * p) xs)) [0..<k]) = take (k * p) xs"
proof (induction k)
  case 0
  then show ?case by simp
next
  case (Suc k)
  have "Suc k * p = k * p + p" by simp
  then have "take (Suc k * p) xs = take (k * p) xs @ take p (drop (k * p) xs)"
    by (simp only: take_add)
  with Suc show ?case by simp
qed

lemma num_pages_covers:
  assumes "0 < per_page"
  shows "length xs \<le> num_pages per_page xs * per_page" and "1 \<le> num_pages per_page xs"
proof -
  define h where "h = max 1 (length xs)"
  define q where "q = (h + per_page - 1) div per_page"
  have q: "num_pages per_page xs = q"
    by (simp add: num_pages_def q_def h_def)
  have h: "1 \<le> h" "length xs \<le> h"
    by (simp_all add: h_def)
  have "h + per_page - 1 < q * per_page + per_page"
    unfolding q_def using assms
    by (metis div_mult_mod_eq add_less_cancel_left mod_less_divisor)
  with h have "h \<le> q * per_page" by arith
  with h show "length xs \<le> num_pages per_page xs * per_page"
    unfolding q by arith
  have "per_page \<le> h + per_page - 1" using h by arith
  then have "per_page div per_page \<le> q"
    unfolding q_def by (rule div_le_mono)
  with assms show "1 \<le> num_pages per_page xs"
    unfolding q by simp
qed

lemma pages_partition:
  assumes "0 < per_page"
  shows "concat (map (\<lambda>i. take per_page (drop (i * per_page) xs)) [0..<num_pages per_page xs]) = xs"
  using num_pages_covers(1)[OF assms, of xs] by (simp add: concat_pages_take)

lemma paginator_page_valid:
  assumes "1 \<le> n" "n \<le> num_pages per_page xs"
  shows "paginator_page xs per_page (int n) = Some (take per_page (drop ((n - 1) * per_page) xs))"
  using assms by (auto simp: paginator_page_def Let_def)

lemma example_loaned:
  "LoanedBooksByUserListView_get_queryset False member example_catalog
     = Inr [example_copy4, example_copy]"
  by (simp add: LoanedBooksByUserListView_get_queryset_def order_by_def due_back_key_def
        example_defs)

lemma example_borrowed:
  "BorrowedBooksListView_get_queryset False example_catalog
     = [example_copy4, example_copy3, example_copy]"
  by (simp add: BorrowedBooksListView_get_queryset_def order_by_def due_back_key_def
        example_defs)

lemma Book_form_errors_isbn:
  assumes "Book_form_errors db self_pk f = []"
  shows "length (form_isbn f) \<le> 13"
    and "\<forall>b \<in> set (books db). isbn b = form_isbn f \<longrightarrow> Some (Book.id b) = self_pk"
  using assms
  by (auto simp: Book_form_errors_def CharField_errors_def split: if_splits)

lemma Book_create_Inr:
  assumes "Book_create new_pk f db = Inr db'"
  shows "db' = db\<lparr>books := books db @ [Book_of_form new_pk f]\<rparr>"
    and "Book_form_errors db None f = []"
    and "\<forall>b \<in> set (books db). Book.id b \<noteq> new_pk"
  using assms by (auto simp: Book_create_def split: if_splits)

lemma Book_update_Inr:
  assumes "Book_update pk f db = Inr db'"
  shows "db' = db\<lparr>books := map (\<lambda>b. if Book.id b = pk then Book_of_form pk f else b) (books db)\<rparr>"
    and "Book_form_errors db (Some pk) f = []"
  using assms by (auto simp: Book_update_def split: if_splits option.splits)

lemma Book_delete_Inr:
  assumes "Book_delete pk db = Inr db'"
  shows "db' = db\<lparr>books := filter (\<lambda>b. Book.id b \<noteq> pk) (books db)\<rparr>"
    and "\<forall>r \<in> set (instances db). book r \<noteq> Some pk"
  using assms
  by (auto simp: Book_delete_def BookInstance_book_on_delete_def
           split: if_splits option.splits)

lemma Author_delete_Inr:
  assumes "Author_delete pk db = Inr db'"
  shows "db' = db\<lparr>authors := filter (\<lambda>a. Author.id a \<noteq> pk) (authors db),
                  books := map (\<lambda>b. if author b = Some pk then b\<lparr>author := None\<rparr> else b)
                             (books db)\<rparr>"
  using assms
  by (auto simp: Author_delete_def Book_author_on_delete_def split: option.splits)

lemma Genre_delete_Inr:
  assumes "Genre_delete pk db = Inr db'"
  shows "db' = db\<lparr>genres := filter (\<lambda>g. Genre.id g \<noteq> pk) (genres db),
                  books := map (\<lambda>b. b\<lparr>genre := filter (\<lambda>g. g \<noteq> pk) (genre b)\<rparr>) (books db)\<rparr>"
  using assms by (auto simp: Genre_delete_def split: option.splits)

lemma overwrite_keeps_ids:
  "Book.id new = pk \<Longrightarrow>
   map Book.id (map (\<lambda>b. if Book.id b = pk then new else b) bs) = map Book.id bs"
  by (induction bs) auto

lemma overwrite_isbn_set:
  "set (map isbn (map (\<lambda>b. if Book.id b = pk then new else b) bs))
     \<subseteq> insert (isbn new) (isbn ` {b \<in> set bs. Book.id b \<noteq> pk})"
  by (induction bs) auto

lemma overwrite_distinct_isbn:
  assumes "distinct (map Book.id bs)" "distinct (map isbn bs)"
    and "\<forall>b \<in> set bs. isbn b = isbn new \<longrightarrow> Book.id b = pk"
  shows "distinct (map isbn (map (\<lambda>b. if Book.id b = pk then new else b) bs))"
  using assms
proof (induction bs)
  case Nil
  then show ?case by simp
next
  case (Cons b bs)
  let ?f = "\<lambda>b. if Book.id b = pk then new else b"
  from Cons have tl: "distinct (map isbn (map ?f bs))" by simp
  show ?case
  proof (cases "Book.id b = pk")
    case True
    from Cons.prems(1) have "Book.id b \<notin> Book.id ` set bs" by simp
    with True have none: "\<forall>c \<in> set bs. Book.id c \<noteq> pk" by (metis imageI)
    then have same: "map ?f bs = bs" by (simp add: map_idI)
    from none Cons.prems(3) have "isbn new \<notin> isbn ` set bs" by auto
    with Cons.prems(2) True same show ?thesis by simp
  next
    case False
    with Cons.prems(3) have ne: "isbn b \<noteq> isbn new" by auto
    from Cons.prems(2) have "isbn b \<notin> isbn ` set bs" by auto
    with ne have "isbn b \<notin> set (map isbn (map ?f bs))"
      using overwrite_isbn_set[of pk new bs] by auto
    with tl False show ?thesis by simp
  qed
qed

lemma Book_create_isbn_invariant:
  assumes "isbn_invariant db" "Book_create new_pk f db = Inr db'"
  shows "isbn_invariant db'"
proof -
  note c = Book_create_Inr[OF assms(2)]
  from Book_form_errors_isbn[OF c(2)]
  have len: "length (form_isbn f) \<le> 13" and fresh: "form_isbn f \<notin> isbn ` set (books db)"
    by auto
  with assms(1) show ?thesis
    by (simp add: c(1) isbn_invariant_def Book_of_form_def)
qed

lemma Book_create_pk_invariant:
  assumes "Book_pk_invariant db" "Book_create new_pk f db = Inr db'"
  shows "Book_pk_invariant db'"
  using assms(1) Book_create_Inr(1,3)[OF assms(2)]
  by (auto simp: Book_pk_invariant_def Book_of_form_def)

lemma Book_update_isbn_invariant:
  assumes "isbn_invariant db" "Book_pk_invariant db" "Book_update pk f db = Inr db'"
  shows "isbn_invariant db'"
proof -
  note u = Book_update_Inr[OF assms(3)]
  let ?new = "Book_of_form pk f"
  from Book_form_errors_isbn[OF u(2)]
  have len: "length (isbn ?new) \<le> 13"
    and only: "\<forall>b \<in> set (books db). isbn b = isbn ?new \<longrightarrow> Book.id b = pk"
    by (simp_all add: Book_of_form_def)
  have "distinct (map isbn (map (\<lambda>b. if Book.id b = pk then ?new else b) (books db)))"
    using assms(1,2) only
    by (intro overwrite_distinct_isbn) (simp_all add: isbn_invariant_def Book_pk_invariant_def)
  moreover have "list_all (\<lambda>b. length (isbn b) \<le> 13)
                   (map (\<lambda>b. if Book.id b = pk then ?new else b) (books db))"
    using assms(1) len by (auto simp: isbn_invariant_def list_all_iff)
  ultimately show ?thesis by (simp add: u(1) isbn_invariant_def)
qed

lemma Book_update_pk_invariant:
  assumes "Book_pk_invariant db" "Book_update pk f db = Inr db'"
  shows "Book_pk_invariant db'"
proof -
  have "Book.id (Book_of_form pk f) = pk"
    by (simp add: Book_of_form_def)
  then have "map Book.id (books db') = map Book.id (books db)"
    unfolding Book_update_Inr(1)[OF assms(2)] by (simp add: overwrite_keeps_ids del: map_map)
  with assms(1) show ?thesis by (simp add: Book_pk_invariant_def)
qed

lemma reachable_invariants:
  "reachable db \<Longrightarrow> isbn_invariant db \<and> Book_pk_invariant db"
proof (induction rule: reachable.induct)
  case initial
  show ?case by (simp add: isbn_invariant_def Book_pk_invariant_def)
next
  case (other_tables db genres' authors' instances')
  then show ?case by (simp add: isbn_invariant_def Book_pk_invariant_def)
next
  case (book_create db new_pk f db')
  then show ?case
    using Book_create_isbn_invariant Book_create_pk_invariant by blast
next
  case (book_update db pk f db')
  then show ?case
    using Book_update_isbn_invariant Book_update_pk_invariant by blast
next
  case (book_delete db pk db')
  note d = Book_delete_Inr(1)[OF book_delete.hyps(2)]
  from book_delete.IH show ?case
    by (auto simp: d isbn_invariant_def Book_pk_invariant_def list_all_iff distinct_map_filter)
next
  case (author_delete db pk db')
  let ?f = "\<lambda>b. if author b = Some pk then b\<lparr>author := None\<rparr> else b"
  note d = Author_delete_Inr[OF author_delete.hyps(2)]
  have "map isbn (map ?f (books db)) = map isbn (books db)"
    and "map Book.id (map ?f (books db)) = map Book.id (books db)"
    by (simp_all add: comp_def if_distrib cong: if_cong)
  then have "map isbn (books db') = map isbn (books db)"
    and "map Book.id (books db') = map Book.id (books db)"
    unfolding d by simp_all
  moreover have "list_all (\<lambda>b. length (isbn b) \<le> 13) bs
                 = list_all (\<lambda>i. length i \<le> 13) (map isbn bs)" for bs :: "Book list"
    by (simp add: list_all_iff)
  ultimately show ?case
    using author_delete.IH by (simp add: isbn_invariant_def Book_pk_invariant_def)
next
  case (genre_delete db pk db')
  note d = Genre_delete_Inr[OF genre_delete.hyps(2)]
  from genre_delete.IH show ?case
    by (simp add: d isbn_invariant_def Book_pk_invariant_def list_all_iff comp_def)
qed

lemmas book_example_defs = earthsea_form_def emma_form_def emma_def two_books_def

lemma example_create_earthsea:
  "Book_create 1 earthsea_form (example_catalog\<lparr>books := []\<rparr>) = Inr example_catalog"
  by (simp add: Book_create_def Book_form_errors_def CharField_errors_def Book_of_form_def
        example_defs book_example_defs)

lemma example_create_emma:
  "Book_create 2 emma_form example_catalog = Inr two_books"
  by (simp add: Book_create_def Book_form_errors_def CharField_errors_def Book_of_form_def
        example_defs book_example_defs)

lemma example_reachable: "reachable example_catalog"
proof -
  have "reachable (\<lparr>genres = [], authors = [], books = [], instances = []\<rparr>
          \<lparr>genres := genres example_catalog, authors := authors example_catalog,
           instances := instances example_catalog\<rparr>)"
    by (intro reachable.other_tables reachable.initial)
  also have "\<lparr>genres = [], authors = [], books = [], instances = []\<rparr>
          \<lparr>genres := genres example_catalog, authors := authors example_catalog,
           instances := instances example_catalog\<rparr> = example_catalog\<lparr>books := []\<rparr>"
    by (simp add: example_catalog_def)
  finally show ?thesis
    using example_create_earthsea by (rule reachable.book_create)
qed

lemma two_books_reachable: "reachable two_books"
  using example_reachable example_create_emma by (rule reachable.book_create)

lemma example_update_emma:
  "Book_update 2 (emma_form\<lparr>form_isbn := ''9780141439587''\<rparr>) two_books
     = Inr (example_catalog\<lparr>books := [earthsea, emma\<lparr>isbn := ''9780141439587''\<rparr>]\<rparr>)"
  by (simp add: Book_update_def Book_form_errors_def CharField_errors_def Book_of_form_def
        example_defs book_example_defs)

lemma num_pages_ten: "num_pages 10 xs = max 1 ((length xs + 9) div 10)"
  by (cases "length xs") (simp_all add: num_pages_def)

lemma page_exists_iff:
  "(1 \<le> n \<and> n \<le> num_pages 10 xs) \<longleftrightarrow> (n = 1 \<or> (1 \<le> n \<and> (n - 1) * 10 < length xs))"
  unfolding num_pages_ten by (cases n) auto

lemma paginate_ten:
  "paginate_queryset xs 10 (PageInt (int n))
     = (if n = 1 \<or> (1 \<le> n \<and> (n - 1) * 10 < length xs)
        then Some (take 10 (drop ((n - 1) * 10) xs)) else None)"
proof (cases "1 \<le> n \<and> n \<le> num_pages 10 xs")
  case True
  then show ?thesis
    using paginator_page_valid[of n 10 xs] page_exists_iff[of n xs]
    by (simp add: paginate_queryset_def)
next
  case False
  then have "paginator_page xs 10 (int n) = None"
    by (auto simp: paginator_page_def)
  moreover from False have "\<not> (n = 1 \<or> (1 \<le> n \<and> (n - 1) * 10 < length xs))"
    using page_exists_iff[of n xs] by blast
  ultimately show ?thesis
    by (simp only: paginate_queryset_def page_kwarg.case if_False)
qed

lemma paginate_defaults:
  "paginate_queryset xs 10 NoPage = paginate_queryset xs 10 (PageInt 1)"
  "paginate_queryset xs 10 PageEmpty = paginate_queryset xs 10 (PageInt 1)"
  "paginate_queryset xs 10 PageLast
     = paginate_queryset xs 10 (PageInt (int (max 1 ((length xs + 9) div 10))))"
  "paginate_queryset xs 10 PageOther = None"
  by (simp_all add: paginate_queryset_def num_pages_ten)

lemma full_page_ten:
  assumes "1 \<le> n" "n * 10 \<le> length xs"
  shows "length (take 10 (drop ((n - 1) * 10) xs)) = 10"
  using assms by (cases n) auto

lemma pages_partition_ten:
  "concat (map (\<lambda>i. take 10 (drop (i * 10) xs)) [0..<max 1 ((length xs + 9) div 10)]) = xs"
  using pages_partition[of 10 xs] by (simp add: num_pages_ten)

lemma sorted_pairs_nth:
  fixes f g :: "'a \<Rightarrow> 'k::linorder"
  assumes "sorted (map (\<lambda>a. (f a, g a)) xs)" "i < j" "j < length xs"
  shows "f (xs ! i) \<le> f (xs ! j) \<and> (f (xs ! i) = f (xs ! j) \<longrightarrow> g (xs ! i) \<le> g (xs ! j))"
proof -
  from assms have "map (\<lambda>a. (f a, g a)) xs ! i \<le> map (\<lambda>a. (f a, g a)) xs ! j"
    by (intro sorted_nth_mono) auto
  with assms have "(f (xs ! i), g (xs ! i)) \<le> (f (xs ! j), g (xs ! j))"
    by simp
  then show ?thesis
    by (auto simp: less_eq_prod_def)
qed

lemma sorted_nulls_nth:
  assumes "sorted (map (\<lambda>r. due_back_key nulls_first (due_back r)) xs)" "i < j" "j < length xs"
  shows "(nulls_first \<and> due_back (xs ! j) = None \<longrightarrow> due_back (xs ! i) = None)
       \<and> (\<not> nulls_first \<and> due_back (xs ! i) = None \<longrightarrow> due_back (xs ! j) = None)"
proof -
  let ?k = "\<lambda>r. due_back_key nulls_first (due_back r)"
  from assms have "map ?k xs ! i \<le> map ?k xs ! j"
    by (intro sorted_nth_mono) auto
  with assms have "?k (xs ! i) \<le> ?k (xs ! j)" by simp
  then show ?thesis
    by (cases nulls_first; cases "due_back (xs ! i)"; cases "due_back (xs ! j)")
       (simp_all add: due_back_key_def less_eq_prod_def)
qed

lemma sorted_slice:
  assumes "sorted (map key xs)"
  shows "sorted (map key (take m (drop k xs)))"
proof -
  have "map key (take m (drop k xs)) = take m (drop k (map key xs))"
    by (simp add: take_map drop_map)
  moreover have "sorted (take m (drop k (map key xs)))"
    using assms by (intro sorted_wrt_take sorted_wrt_drop)
  ultimately show ?thesis by simp
qed

lemma length_order_by: "length (order_by key rows) = length rows"
  by (simp add: order_by_def)

lemma AuthorListView_page:
  "AuthorListView collate page db =
     (case paginate_queryset (Author_objects_all collate db) 10 page of
        None \<Rightarrow> Http404
      | Some author_list \<Rightarrow> Render ''catalog/author_list.html'' author_list)"
  by (simp add: AuthorListView_def AuthorListView_paginate_by_def)

lemma BookListView_page:
  "BookListView scan page db =
     (case paginate_queryset (scan (books db)) 10 page of
        None \<Rightarrow> Http404
      | Some object_list \<Rightarrow>
          Render ''catalog/book_list.html''
            \<lparr>book_list = object_list, some_data = ''This is just some data''\<rparr>)"
  by (simp add: BookListView_def BookListView_paginate_by_def Book_objects_all_def)

lemma ordering_keys:
  "Author_ordering collate = (\<lambda>a. (collate (last_name a), collate (first_name a)))"
  "Genre_ordering collate = (\<lambda>g. collate (name g))"
  "BookInstance_ordering nulls_first = (\<lambda>r. due_back_key nulls_first (due_back r))"
  by (rule ext, simp add: Author_ordering_def Genre_ordering_def BookInstance_ordering_def)+

lemma paginate_negative: "k < 0 \<Longrightarrow> paginate_queryset xs 10 (PageInt k) = None"
  by (simp add: paginate_queryset_def paginator_page_def)

lemma author_row_names:
  "last_name (author_row k given family) = family"
  "first_name (author_row k given family) = given"
  by (simp_all add: author_row_def)

lemma library_authors_sorted:
  "Author_objects_all binary_collation library =
     [author_row 3 ''Jane'' ''Austen'', author_row 7 ''Anne'' ''Bronte'',
      author_row 4 ''Charlotte'' ''Bronte'', author_row 2 ''Emily'' ''Bronte'',
      author_row 10 ''Wilkie'' ''Collins'', author_row 9 ''Charles'' ''Dickens'',
      author_row 6 ''George'' ''Eliot'', author_row 11 ''Elizabeth'' ''Gaskell'',
      author_row 8 ''Thomas'' ''Hardy'', author_row 12 ''Ursula'' ''Le Guin'',
      author_row 5 ''Mary'' ''Shelley'', author_row 1 ''Virginia'' ''Woolf'']"
  by (simp add: Author_objects_all_def order_by_def Author_ordering_def binary_collation_def
        library_def author_row_names)

lemma library_genres_sorted:
  "Genre_objects_all binary_collation library =
     [\<lparr>Genre.id = 3, name = ''Fantasy''\<rparr>, \<lparr>Genre.id = 2, name = ''Gothic''\<rparr>,
      \<lparr>Genre.id = 1, name = ''Novel''\<rparr>]"
  by (simp add: Genre_objects_all_def order_by_def Genre_ordering_def binary_collation_def
        library_def)

lemma example_instances_sorted:
  "BookInstance_objects_all False example_catalog
     = [example_copy4, example_copy3, example_copy, example_copy2]"
  "BookInstance_objects_all True example_catalog
     = [example_copy2, example_copy4, example_copy3, example_copy]"
  by (simp_all add: BookInstance_objects_all_def order_by_def BookInstance_ordering_def
        due_back_key_def example_defs)

subsection \<open>Claims\<close>

text \<open>
  C1: \<^verbatim>\<open>is_overdue\<close> holds exactly when \<^verbatim>\<open>due_back\<close> is set and strictly before the
  current date; it is false for an instance whose \<^verbatim>\<open>due_back\<close> is null.
\<close>

theorem is_overdue_iff:
  "is_overdue today self = (\<exists>d. due_back self = Some d \<and> d < today)
   \<and> is_overdue today (self\<lparr>due_back := None\<rparr>) = False"
  by (simp add: is_overdue_def split: option.split)

text \<open>
  C2: the renewal action changes the catalog only for an authenticated caller who holds
  \<^verbatim>\<open>catalog.can_mark_returned\<close> and posts data the form accepts; an anonymous caller
  is sent to the login page and a caller without the permission is refused, both with the
  catalog as it was; and for a permitted caller with valid data the instance then read
  back under the key carries the cleaned renewal date.
\<close>

theorem renew_book_librarian_guarded:
  "(\<not> (is_authenticated (user request) \<and> has_perm (user request) ''catalog.can_mark_returned''
        \<and> method request = ''POST'' \<and> is_valid F (POST request))
      \<longrightarrow> fst (renew_book_librarian reverse F today request pk db) = db)
   \<and> (\<not> is_authenticated (user request)
      \<longrightarrow> renew_book_librarian reverse F today request pk db = (db, RedirectToLogin))
   \<and> (is_authenticated (user request) \<and> \<not> has_perm (user request) ''catalog.can_mark_returned''
      \<longrightarrow> renew_book_librarian reverse F today request pk db = (db, PermissionDenied))
   \<and> (is_authenticated (user request) \<and> has_perm (user request) ''catalog.can_mark_returned''
        \<and> method request = ''POST'' \<and> is_valid F (POST request)
        \<and> get_BookInstance_or_404 db pk = Some bi
      \<longrightarrow> get_BookInstance_or_404 (fst (renew_book_librarian reverse F today request pk db)) pk
            = Some (bi\<lparr>due_back := cleaned_renewal_date F (POST request)\<rparr>))"
proof (intro conjI impI)
  assume "\<not> (is_authenticated (user request) \<and> has_perm (user request) ''catalog.can_mark_returned''
        \<and> method request = ''POST'' \<and> is_valid F (POST request))"
  then show "fst (renew_book_librarian reverse F today request pk db) = db"
    by (auto simp: renew_unfold renew_body_unchanged)
next
  assume "\<not> is_authenticated (user request)"
  then show "renew_book_librarian reverse F today request pk db = (db, RedirectToLogin)"
    by (simp add: renew_unfold)
next
  assume "is_authenticated (user request) \<and> \<not> has_perm (user request) ''catalog.can_mark_returned''"
  then show "renew_book_librarian reverse F today request pk db = (db, PermissionDenied)"
    by (simp add: renew_unfold)
next
  assume a: "is_authenticated (user request) \<and> has_perm (user request) ''catalog.can_mark_returned''
        \<and> method request = ''POST'' \<and> is_valid F (POST request)
        \<and> get_BookInstance_or_404 db pk = Some bi"
  let ?obj = "bi\<lparr>due_back := cleaned_renewal_date F (POST request)\<rparr>"
  from a have g: "find (\<lambda>r. BookInstance.id r = pk) (instances db) = Some bi"
    by (simp add: get_BookInstance_or_404_def)
  from a have pk: "BookInstance.id bi = pk" and mem: "bi \<in> set (instances db)"
    using get_BookInstance_or_404_Some by blast+
  have "fst (renew_book_librarian reverse F today request pk db) = save_BookInstance ?obj db"
    using a by (simp add: renew_unfold renew_body_success)
  moreover have "get_BookInstance_or_404 (save_BookInstance ?obj db) pk = Some ?obj"
    using mem pk find_map_overwrite[OF g, of ?obj]
    by (auto simp: save_BookInstance_def get_BookInstance_or_404_def)
  ultimately show "get_BookInstance_or_404 (fst (renew_book_librarian reverse F today request pk db)) pk
            = Some ?obj" by simp
qed

theorem renew_book_librarian_guarded_witness:
  "fst (renew_book_librarian example_reverse example_form 738886
          \<lparr>method = ''POST'', user = librarian, POST = []\<rparr> 7 example_catalog) = example_catalog
   \<and> renew_book_librarian example_reverse example_form 738886
          \<lparr>method = ''POST'', user = AnonymousUser, POST = example_post\<rparr> 7 example_catalog
       = (example_catalog, RedirectToLogin)
   \<and> renew_book_librarian example_reverse example_form 738886
          \<lparr>method = ''POST'', user = member, POST = example_post\<rparr> 7 example_catalog
       = (example_catalog, PermissionDenied)
   \<and> get_BookInstance_or_404
        (fst (renew_book_librarian example_reverse example_form 738886
          \<lparr>method = ''POST'', user = librarian, POST = example_post\<rparr> 7 example_catalog)) 7
       = Some (example_copy\<lparr>due_back := Some 738905\<rparr>)"
proof -
  have invalid: "\<not> is_valid example_form []"
    by (simp add: example_form_def)
  have valid: "is_valid example_form example_post"
    and cleaned: "cleaned_renewal_date example_form example_post = Some 738905"
    by (simp_all add: example_form_def example_post_def)
  have lib: "is_authenticated librarian" "has_perm librarian ''catalog.can_mark_returned''"
    and mem: "is_authenticated member" "\<not> has_perm member ''catalog.can_mark_returned''"
    by (simp_all add: librarian_def member_def)
  show ?thesis
    using renew_book_librarian_guarded
            [of "\<lparr>method = ''POST'', user = librarian, POST = []\<rparr>" example_form
                example_reverse 738886 7 example_catalog example_copy]
          renew_book_librarian_guarded
            [of "\<lparr>method = ''POST'', user = AnonymousUser, POST = example_post\<rparr>" example_form
                example_reverse 738886 7 example_catalog example_copy]
          renew_book_librarian_guarded
            [of "\<lparr>method = ''POST'', user = member, POST = example_post\<rparr>" example_form
                example_reverse 738886 7 example_catalog example_copy]
          renew_book_librarian_guarded
            [of "\<lparr>method = ''POST'', user = librarian, POST = example_post\<rparr>" example_form
                example_reverse 738886 7 example_catalog example_copy]
          invalid valid cleaned lib mem example_get
    by simp
qed

text \<open>
  C5: for a permitted caller and an existing instance, a request whose method is not
  POST (a GET among them) is answered with the form whose initial renewal date is the
  current date plus 21 days, as long as that date is not after \<^verbatim>\<open>date.max\<close>.
\<close>

theorem renew_get_proposes_three_weeks:
  assumes "is_authenticated (user request)"
    and "has_perm (user request) ''catalog.can_mark_returned''"
    and "method request \<noteq> ''POST''"
    and "get_BookInstance_or_404 db pk = Some book_instance"
    and "0 < today" and "today + 21 \<le> MAXORDINAL"
  shows "renew_book_librarian reverse F today request pk db =
           (db, Render ''catalog/book_renew_librarian.html''
                  \<lparr>ctx_form = InitialForm (today + 21), ctx_book_instance = book_instance\<rparr>)"
  using assms
  by (simp add: renew_unfold renew_book_librarian_body_def date_add_def timedelta_weeks_def)

theorem renew_get_proposes_three_weeks_witness:
  "renew_book_librarian example_reverse example_form 738886
      \<lparr>method = ''GET'', user = librarian, POST = []\<rparr> 7 example_catalog =
     (example_catalog, Render ''catalog/book_renew_librarian.html''
        \<lparr>ctx_form = InitialForm 738907, ctx_book_instance = example_copy\<rparr>)"
proof -
  have "is_authenticated librarian" "has_perm librarian ''catalog.can_mark_returned''"
    by (simp_all add: librarian_def)
  moreover have "(738886::int) + 21 \<le> MAXORDINAL"
    by (simp add: MAXORDINAL_def)
  ultimately show ?thesis
    using renew_get_proposes_three_weeks
            [of "\<lparr>method = ''GET'', user = librarian, POST = []\<rparr>" example_catalog 7
                example_copy 738886 example_reverse example_form] example_get
    by simp
qed

text \<open>
  C9: a successful renewal leaves genres, authors and books as they were, and in the
  table of instances only the \<^verbatim>\<open>due_back\<close> of the row with the given key changes
  (primary keys being distinct).
\<close>

theorem renew_frame:
  assumes "is_authenticated (user request)"
    and "has_perm (user request) ''catalog.can_mark_returned''"
    and "method request = ''POST''" and "is_valid F (POST request)"
    and "get_BookInstance_or_404 db pk = Some book_instance"
    and "distinct (map BookInstance.id (instances db))"
  shows "fst (renew_book_librarian reverse F today request pk db) =
           db\<lparr>instances :=
                map (\<lambda>r. if BookInstance.id r = pk
                          then r\<lparr>due_back := cleaned_renewal_date F (POST request)\<rparr> else r)
                    (instances db)\<rparr>"
proof -
  let ?v = "cleaned_renewal_date F (POST request)"
  have pk: "BookInstance.id book_instance = pk" and mem: "book_instance \<in> set (instances db)"
    using assms(5) get_BookInstance_or_404_Some by blast+
  have same: "r = book_instance" if "r \<in> set (instances db)" "BookInstance.id r = pk" for r
    using pk_unique[OF assms(6) that(1) mem] that(2) pk by simp
  have "fst (renew_book_librarian reverse F today request pk db) =
          save_BookInstance (book_instance\<lparr>due_back := ?v\<rparr>) db"
    using assms by (simp add: renew_unfold renew_body_success)
  also have "\<dots> = db\<lparr>instances :=
                map (\<lambda>r. if BookInstance.id r = pk then book_instance\<lparr>due_back := ?v\<rparr> else r)
                    (instances db)\<rparr>"
    using mem pk by (auto simp: save_BookInstance_def)
  also have "map (\<lambda>r. if BookInstance.id r = pk then book_instance\<lparr>due_back := ?v\<rparr> else r)
                 (instances db)
             = map (\<lambda>r. if BookInstance.id r = pk then r\<lparr>due_back := ?v\<rparr> else r) (instances db)"
    using same by (intro map_cong) auto
  finally show ?thesis .
qed

theorem renew_frame_witness:
  "fst (renew_book_librarian example_reverse example_form 738886
          \<lparr>method = ''POST'', user = librarian, POST = example_post\<rparr> 7 example_catalog)
     = example_catalog\<lparr>instances :=
         [example_copy2, example_copy\<lparr>due_back := Some 738905\<rparr>, example_copy3, example_copy4]\<rparr>"
proof -
  have "is_authenticated librarian" "has_perm librarian ''catalog.can_mark_returned''"
    by (simp_all add: librarian_def)
  moreover have "is_valid example_form example_post"
    "cleaned_renewal_date example_form example_post = Some 738905"
    by (simp_all add: example_form_def example_post_def)
  moreover have "distinct (map BookInstance.id (instances example_catalog))"
    by (simp add: example_defs)
  moreover have "instances example_catalog =
                   [example_copy2, example_copy, example_copy3, example_copy4]"
    by (simp add: example_catalog_def)
  moreover have "BookInstance.id example_copy2 \<noteq> 7" "BookInstance.id example_copy = 7"
    "BookInstance.id example_copy3 \<noteq> 7" "BookInstance.id example_copy4 \<noteq> 7"
    by (simp_all add: example_defs)
  ultimately show ?thesis
    using renew_frame
            [of "\<lparr>method = ''POST'', user = librarian, POST = example_post\<rparr>" example_form
                example_catalog 7 example_copy example_reverse 738886] example_get
    by simp
qed

text \<open>
  C10: \<^verbatim>\<open>Book.get_absolute_url\<close> gives the same outcome for any two books: it
  resolves the route with the text of the builtin \<^verbatim>\<open>id\<close>, not with the book's key.
\<close>

theorem Book_get_absolute_url_same:
  "Book_get_absolute_url reverse b1 = Book_get_absolute_url reverse b2
   \<and> Book_get_absolute_url reverse b1 = reverse ''book-detail'' [''<built-in function id>'']"
  by (simp add: Book_get_absolute_url_def str_builtin_id_def)

text \<open>
  C4: the queryset of each loan list holds exactly the instances with status \<^verbatim>\<open>o\<close>
  (for the per-user list, those among them whose borrower is the requesting user), and
  lists them by ascending \<^verbatim>\<open>due_back\<close>: the sort keys ascend, and so do the due
  dates of the rows that have one.
\<close>

theorem loan_list_querysets:
  "(\<exists>qs. LoanedBooksByUserListView_get_queryset nulls_first (User k perms) db = Inr qs
      \<and> mset qs = filter_mset (\<lambda>r. status r = ''o'' \<and> borrower r = Some k) (mset (instances db))
      \<and> sorted (map (\<lambda>r. due_back_key nulls_first (due_back r)) qs)
      \<and> sorted (List.map_filter due_back qs))
   \<and> mset (BorrowedBooksListView_get_queryset nulls_first db)
       = filter_mset (\<lambda>r. status r = ''o'') (mset (instances db))
   \<and> sorted (map (\<lambda>r. due_back_key nulls_first (due_back r))
              (BorrowedBooksListView_get_queryset nulls_first db))
   \<and> sorted (List.map_filter due_back (BorrowedBooksListView_get_queryset nulls_first db))"
proof -
  let ?key = "\<lambda>r. due_back_key nulls_first (due_back r)"
  let ?mine = "order_by ?key (filter (\<lambda>r. status r = ''o'')
                 (filter (\<lambda>r. borrower r = Some k) (instances db)))"
  have 1: "LoanedBooksByUserListView_get_queryset nulls_first (User k perms) db = Inr ?mine"
    by (simp add: LoanedBooksByUserListView_get_queryset_def)
  have 2: "mset ?mine
           = filter_mset (\<lambda>r. status r = ''o'' \<and> borrower r = Some k) (mset (instances db))"
    by (simp add: order_by_mset conj_commute)
  have 3: "sorted (map ?key ?mine)"
    by (rule order_by_sorted)
  have 4: "sorted (List.map_filter due_back ?mine)"
    using 3 by (rule sorted_dates_of_sorted_keys)
  have 5: "mset (BorrowedBooksListView_get_queryset nulls_first db)
           = filter_mset (\<lambda>r. status r = ''o'') (mset (instances db))"
    by (simp add: BorrowedBooksListView_get_queryset_def order_by_mset)
  have 6: "sorted (map ?key (BorrowedBooksListView_get_queryset nulls_first db))"
    unfolding BorrowedBooksListView_get_queryset_def by (rule order_by_sorted)
  have 7: "sorted (List.map_filter due_back (BorrowedBooksListView_get_queryset nulls_first db))"
    using 6 by (rule sorted_dates_of_sorted_keys)
  from 1 2 3 4 5 6 7 show ?thesis by blast
qed

theorem loan_list_querysets_witness:
  "LoanedBooksByUserListView_get_queryset False member example_catalog
     = Inr [example_copy4, example_copy]
   \<and> BorrowedBooksListView_get_queryset False example_catalog
     = [example_copy4, example_copy3, example_copy]
   \<and> sorted (List.map_filter due_back [example_copy4, example_copy3, example_copy])
   \<and> mset [example_copy4, example_copy3, example_copy]
     = filter_mset (\<lambda>r. status r = ''o'') (mset (instances example_catalog))"
  using loan_list_querysets [of False 5 "\<lambda>perm. False" example_catalog]
    example_loaned example_borrowed
  by (simp add: member_def)

text \<open>
  C7: authors are listed by \<^verbatim>\<open>last_name\<close>, then \<^verbatim>\<open>first_name\<close>: of two rows the
  earlier has the smaller last name or, the last names collating equal, the smaller first
  name.  Genres are listed by \<^verbatim>\<open>name\<close>, book instances by \<^verbatim>\<open>due_back\<close> (the dates
  ascend, and the rows without a date all come first or all come last, as the database
  sorts NULL), and books, which declare no ordering, in the order the database scans them.
  Each list holds exactly the rows of its table.  The Author and Book list views serve
  their list in pages of 10: page \<open>n\<close> is the slice of ten rows from row \<open>10 (n - 1)\<close>,
  it exists when \<open>n = 1\<close> or the list has more than \<open>10 (n - 1)\<close> rows and is a 404
  otherwise, a page followed by another is full, the pages together are the whole list, a
  request with no or an empty page number gets page 1, \<^verbatim>\<open>last\<close> gets the last page, and
  any other text a 404.
\<close>

theorem list_views_paginate_and_order:
  fixes collate :: "string \<Rightarrow> 'k::linorder"
  shows
  "mset (Author_objects_all collate db) = mset (authors db)
   \<and> sorted (map (\<lambda>a. (collate (last_name a), collate (first_name a)))
               (Author_objects_all collate db))
   \<and> (i < j \<and> j < length (authors db) \<longrightarrow>
        collate (last_name (Author_objects_all collate db ! i))
          \<le> collate (last_name (Author_objects_all collate db ! j))
        \<and> (collate (last_name (Author_objects_all collate db ! i))
             = collate (last_name (Author_objects_all collate db ! j)) \<longrightarrow>
           collate (first_name (Author_objects_all collate db ! i))
             \<le> collate (first_name (Author_objects_all collate db ! j))))
   \<and> mset (Genre_objects_all collate db) = mset (genres db)
   \<and> sorted (map (\<lambda>g. collate (name g)) (Genre_objects_all collate db))
   \<and> mset (BookInstance_objects_all nulls_first db) = mset (instances db)
   \<and> sorted (List.map_filter due_back (BookInstance_objects_all nulls_first db))
   \<and> (i < j \<and> j < length (instances db) \<longrightarrow>
        (nulls_first \<and> due_back (BookInstance_objects_all nulls_first db ! j) = None \<longrightarrow>
           due_back (BookInstance_objects_all nulls_first db ! i) = None)
        \<and> (\<not> nulls_first \<and> due_back (BookInstance_objects_all nulls_first db ! i) = None \<longrightarrow>
           due_back (BookInstance_objects_all nulls_first db ! j) = None))
   \<and> (mset (scan (books db)) = mset (books db) \<longrightarrow>
        mset (Book_objects_all scan db) = mset (books db))
   \<and> AuthorListView collate NoPage db = AuthorListView collate (PageInt 1) db
   \<and> AuthorListView collate PageEmpty db = AuthorListView collate (PageInt 1) db
   \<and> AuthorListView collate PageLast db
       = AuthorListView collate (PageInt (int (max 1 ((length (authors db) + 9) div 10)))) db
   \<and> AuthorListView collate PageOther db = Http404
   \<and> (n = 1 \<or> (1 \<le> n \<and> (n - 1) * 10 < length (authors db)) \<longrightarrow>
        AuthorListView collate (PageInt (int n)) db
          = Render ''catalog/author_list.html''
              (take 10 (drop ((n - 1) * 10) (Author_objects_all collate db)))
        \<and> sorted (map (\<lambda>a. (collate (last_name a), collate (first_name a)))
                    (take 10 (drop ((n - 1) * 10) (Author_objects_all collate db)))))
   \<and> (n = 0 \<or> (1 < n \<and> length (authors db) \<le> (n - 1) * 10) \<longrightarrow>
        AuthorListView collate (PageInt (int n)) db = Http404)
   \<and> (k < 0 \<longrightarrow> AuthorListView collate (PageInt k) db = Http404)
   \<and> (1 \<le> n \<and> n * 10 \<le> length (authors db) \<longrightarrow>
        length (take 10 (drop ((n - 1) * 10) (Author_objects_all collate db))) = 10)
   \<and> length (take 10 (drop ((n - 1) * 10) (Author_objects_all collate db))) \<le> 10
   \<and> concat (map (\<lambda>p. take 10 (drop (p * 10) (Author_objects_all collate db)))
              [0..<max 1 ((length (authors db) + 9) div 10)]) = Author_objects_all collate db
   \<and> BookListView scan NoPage db = BookListView scan (PageInt 1) db
   \<and> BookListView scan PageEmpty db = BookListView scan (PageInt 1) db
   \<and> BookListView scan PageLast db
       = BookListView scan (PageInt (int (max 1 ((length (scan (books db)) + 9) div 10)))) db
   \<and> BookListView scan PageOther db = Http404
   \<and> (n = 1 \<or> (1 \<le> n \<and> (n - 1) * 10 < length (scan (books db))) \<longrightarrow>
        BookListView scan (PageInt (int n)) db
          = Render ''catalog/book_list.html''
              \<lparr>book_list = take 10 (drop ((n - 1) * 10) (scan (books db))),
               some_data = ''This is just some data''\<rparr>)
   \<and> (n = 0 \<or> (1 < n \<and> length (scan (books db)) \<le> (n - 1) * 10) \<longrightarrow>
        BookListView scan (PageInt (int n)) db = Http404)
   \<and> (k < 0 \<longrightarrow> BookListView scan (PageInt k) db = Http404)
   \<and> (1 \<le> n \<and> n * 10 \<le> length (scan (books db)) \<longrightarrow>
        length (take 10 (drop ((n - 1) * 10) (scan (books db)))) = 10)
   \<and> length (take 10 (drop ((n - 1) * 10) (scan (books db)))) \<le> 10
   \<and> concat (map (\<lambda>p. take 10 (drop (p * 10) (scan (books db))))
              [0..<max 1 ((length (scan (books db)) + 9) div 10)]) = scan (books db)"
proof -
  let ?as = "Author_objects_all collate db"
  let ?ak = "\<lambda>a. (collate (last_name a), collate (first_name a))"
  let ?is = "BookInstance_objects_all nulls_first db"
  let ?bs = "scan (books db)"
  have len: "length ?as = length (authors db)"
    by (simp add: Author_objects_all_def length_order_by)
  have leni: "length ?is = length (instances db)"
    by (simp add: BookInstance_objects_all_def length_order_by)
  have a1: "mset ?as = mset (authors db)"
    by (simp add: Author_objects_all_def order_by_mset)
  have a2: "sorted (map ?ak ?as)"
    using order_by_sorted[of "Author_ordering collate" "authors db"]
    by (simp only: Author_objects_all_def ordering_keys)
  have a3: "i < j \<and> j < length (authors db) \<longrightarrow>
        collate (last_name (?as ! i)) \<le> collate (last_name (?as ! j))
        \<and> (collate (last_name (?as ! i)) = collate (last_name (?as ! j)) \<longrightarrow>
           collate (first_name (?as ! i)) \<le> collate (first_name (?as ! j)))"
  proof (intro impI)
    assume "i < j \<and> j < length (authors db)"
    then have "i < j" "j < length ?as" using len by simp_all
    from sorted_pairs_nth[OF a2 this]
    show "collate (last_name (?as ! i)) \<le> collate (last_name (?as ! j))
        \<and> (collate (last_name (?as ! i)) = collate (last_name (?as ! j)) \<longrightarrow>
           collate (first_name (?as ! i)) \<le> collate (first_name (?as ! j)))" .
  qed
  have g1: "mset (Genre_objects_all collate db) = mset (genres db)"
    by (simp add: Genre_objects_all_def order_by_mset)
  have g2: "sorted (map (\<lambda>g. collate (name g)) (Genre_objects_all collate db))"
    using order_by_sorted[of "Genre_ordering collate" "genres db"]
    by (simp only: Genre_objects_all_def ordering_keys)
  have i0: "sorted (map (\<lambda>r. due_back_key nulls_first (due_back r)) ?is)"
    using order_by_sorted[of "BookInstance_ordering nulls_first" "instances db"]
    by (simp only: BookInstance_objects_all_def ordering_keys)
  have i1: "mset ?is = mset (instances db)"
    by (simp add: BookInstance_objects_all_def order_by_mset)
  have i2: "sorted (List.map_filter due_back ?is)"
    using i0 by (rule sorted_dates_of_sorted_keys)
  have i3: "i < j \<and> j < length (instances db) \<longrightarrow>
        (nulls_first \<and> due_back (?is ! j) = None \<longrightarrow> due_back (?is ! i) = None)
        \<and> (\<not> nulls_first \<and> due_back (?is ! i) = None \<longrightarrow> due_back (?is ! j) = None)"
  proof (intro impI)
    assume "i < j \<and> j < length (instances db)"
    then have "i < j" "j < length ?is" using leni by simp_all
    from sorted_nulls_nth[OF i0 this]
    show "(nulls_first \<and> due_back (?is ! j) = None \<longrightarrow> due_back (?is ! i) = None)
        \<and> (\<not> nulls_first \<and> due_back (?is ! i) = None \<longrightarrow> due_back (?is ! j) = None)" .
  qed
  have b1: "mset ?bs = mset (books db) \<longrightarrow> mset (Book_objects_all scan db) = mset (books db)"
    by (simp add: Book_objects_all_def)
  have p1: "AuthorListView collate NoPage db = AuthorListView collate (PageInt 1) db"
    and p2: "AuthorListView collate PageEmpty db = AuthorListView collate (PageInt 1) db"
    and p3: "AuthorListView collate PageLast db
       = AuthorListView collate (PageInt (int (max 1 ((length (authors db) + 9) div 10)))) db"
    and p4: "AuthorListView collate PageOther db = Http404"
    by (simp_all only: AuthorListView_page paginate_defaults len option.case)
  have p5: "n = 1 \<or> (1 \<le> n \<and> (n - 1) * 10 < length (authors db)) \<longrightarrow>
        AuthorListView collate (PageInt (int n)) db
          = Render ''catalog/author_list.html'' (take 10 (drop ((n - 1) * 10) ?as))
        \<and> sorted (map ?ak (take 10 (drop ((n - 1) * 10) ?as)))"
    using sorted_slice[OF a2, of 10 "(n - 1) * 10"]
    by (simp add: AuthorListView_page paginate_ten len)
  have p6: "n = 0 \<or> (1 < n \<and> length (authors db) \<le> (n - 1) * 10) \<longrightarrow>
        AuthorListView collate (PageInt (int n)) db = Http404"
    by (auto simp: AuthorListView_page paginate_ten len)
  have p7: "k < 0 \<longrightarrow> AuthorListView collate (PageInt k) db = Http404"
    by (simp add: AuthorListView_page paginate_negative)
  have p8: "1 \<le> n \<and> n * 10 \<le> length (authors db) \<longrightarrow>
        length (take 10 (drop ((n - 1) * 10) ?as)) = 10"
    using full_page_ten[of n ?as] unfolding len by blast
  have p9: "length (take 10 (drop ((n - 1) * 10) ?as)) \<le> 10"
    by simp
  have p10: "concat (map (\<lambda>p. take 10 (drop (p * 10) ?as))
              [0..<max 1 ((length (authors db) + 9) div 10)]) = ?as"
    using pages_partition_ten[of ?as] len by simp
  have q1: "BookListView scan NoPage db = BookListView scan (PageInt 1) db"
    and q2: "BookListView scan PageEmpty db = BookListView scan (PageInt 1) db"
    and q3: "BookListView scan PageLast db
       = BookListView scan (PageInt (int (max 1 ((length ?bs + 9) div 10)))) db"
    and q4: "BookListView scan PageOther db = Http404"
    by (simp_all only: BookListView_page paginate_defaults option.case)
  have q5: "n = 1 \<or> (1 \<le> n \<and> (n - 1) * 10 < length ?bs) \<longrightarrow>
        BookListView scan (PageInt (int n)) db
          = Render ''catalog/book_list.html''
              \<lparr>book_list = take 10 (drop ((n - 1) * 10) ?bs),
               some_data = ''This is just some data''\<rparr>"
    by (simp add: BookListView_page paginate_ten)
  have q6: "n = 0 \<or> (1 < n \<and> length ?bs \<le> (n - 1) * 10) \<longrightarrow>
        BookListView scan (PageInt (int n)) db = Http404"
    by (auto simp: BookListView_page paginate_ten)
  have q7: "k < 0 \<longrightarrow> BookListView scan (PageInt k) db = Http404"
    by (simp add: BookListView_page paginate_negative)
  have q8: "1 \<le> n \<and> n * 10 \<le> length ?bs \<longrightarrow>
        length (take 10 (drop ((n - 1) * 10) ?bs)) = 10"
    using full_page_ten[of n ?bs] by blast
  have q9: "length (take 10 (drop ((n - 1) * 10) ?bs)) \<le> 10"
    by simp
  have q10: "concat (map (\<lambda>p. take 10 (drop (p * 10) ?bs))
              [0..<max 1 ((length ?bs + 9) div 10)]) = ?bs"
    by (rule pages_partition_ten)
  show ?thesis
    by (intro conjI a1 a2 a3 g1 g2 i1 i2 i3 b1 p1 p2 p3 p4 p5 p6 p7 p8 p9 p10
          q1 q2 q3 q4 q5 q6 q7 q8 q9 q10)
qed

theorem list_views_paginate_and_order_witness:
  "AuthorListView binary_collation (PageInt 1) library
     = Render ''catalog/author_list.html''
         [author_row 3 ''Jane'' ''Austen'', author_row 7 ''Anne'' ''Bronte'',
          author_row 4 ''Charlotte'' ''Bronte'', author_row 2 ''Emily'' ''Bronte'',
          author_row 10 ''Wilkie'' ''Collins'', author_row 9 ''Charles'' ''Dickens'',
          author_row 6 ''George'' ''Eliot'', author_row 11 ''Elizabeth'' ''Gaskell'',
          author_row 8 ''Thomas'' ''Hardy'', author_row 12 ''Ursula'' ''Le Guin'']
   \<and> AuthorListView binary_collation PageEmpty library
     = AuthorListView binary_collation (PageInt 1) library
   \<and> AuthorListView binary_collation (PageInt 2) library
     = Render ''catalog/author_list.html''
         [author_row 5 ''Mary'' ''Shelley'', author_row 1 ''Virginia'' ''Woolf'']
   \<and> AuthorListView binary_collation PageLast library
     = AuthorListView binary_collation (PageInt 2) library
   \<and> AuthorListView binary_collation (PageInt 3) library = Http404
   \<and> AuthorListView binary_collation (PageInt 0) library = Http404
   \<and> BookListView table_order (PageInt 1) library
     = Render ''catalog/book_list.html''
         \<lparr>book_list = take 10 (books library), some_data = ''This is just some data''\<rparr>
   \<and> BookListView table_order (PageInt 2) library
     = Render ''catalog/book_list.html''
         \<lparr>book_list = [book_row 11 ''North and South'' 11 ''9780140434248''],
          some_data = ''This is just some data''\<rparr>
   \<and> BookListView table_order (PageInt 3) library = Http404
   \<and> Genre_objects_all binary_collation library
     = [\<lparr>Genre.id = 3, name = ''Fantasy''\<rparr>, \<lparr>Genre.id = 2, name = ''Gothic''\<rparr>,
        \<lparr>Genre.id = 1, name = ''Novel''\<rparr>]
   \<and> BookInstance_objects_all False example_catalog
     = [example_copy4, example_copy3, example_copy, example_copy2]
   \<and> BookInstance_objects_all True example_catalog
     = [example_copy2, example_copy4, example_copy3, example_copy]"
proof -
  have la: "length (authors library) = 12" and lb: "length (books library) = 11"
    by (simp_all add: library_def)
  have b2: "take 10 (drop 10 (books library)) = [book_row 11 ''North and South'' 11 ''9780140434248'']"
    by (simp add: library_def)
  note t1 = list_views_paginate_and_order
              [where collate = binary_collation and db = library and scan = table_order and n = 1]
  note t2 = list_views_paginate_and_order
              [where collate = binary_collation and db = library and scan = table_order and n = 2]
  note t3 = list_views_paginate_and_order
              [where collate = binary_collation and db = library and scan = table_order and n = 3]
  note t0 = list_views_paginate_and_order
              [where collate = binary_collation and db = library and scan = table_order and n = 0]
  show ?thesis
    using t1 t2 t3 t0 la lb b2
    by (simp add: library_authors_sorted library_genres_sorted example_instances_sorted
          table_order_def)
qed

text \<open>
  C3: deleting a book that some instance refers to raises \<^verbatim>\<open>RestrictedError\<close> and
  leaves the catalog as it was; a book no instance refers to is deleted, and a delete that
  succeeds was of a book without instances.
\<close>

theorem Book_delete_restricted:
  assumes "find (\<lambda>b. Book.id b = pk) (books db) = Some obj"
  shows "((\<exists>r \<in> set (instances db). book r = Some pk) \<longrightarrow>
            Book_delete pk db = Inl RestrictedError \<and> after db (Book_delete pk db) = db)
       \<and> ((\<forall>r \<in> set (instances db). book r \<noteq> Some pk) \<longrightarrow>
            Book_delete pk db = Inr (db\<lparr>books := filter (\<lambda>b. Book.id b \<noteq> pk) (books db)\<rparr>))
       \<and> (\<forall>db'. Book_delete pk db = Inr db' \<longrightarrow>
            (\<forall>r \<in> set (instances db). book r \<noteq> Some pk))"
  using assms
  by (auto simp: Book_delete_def BookInstance_book_on_delete_def after_def)

theorem Book_delete_restricted_witness:
  "Book_delete 1 two_books = Inl RestrictedError
   \<and> after two_books (Book_delete 1 two_books) = two_books
   \<and> Book_delete 2 two_books = Inr example_catalog"
proof -
  have f1: "find (\<lambda>b. Book.id b = 1) (books two_books) = Some earthsea"
    and f2: "find (\<lambda>b. Book.id b = 2) (books two_books) = Some emma"
    by (simp_all add: example_defs book_example_defs)
  have r1: "\<exists>r \<in> set (instances two_books). book r = Some 1"
    and r2: "\<forall>r \<in> set (instances two_books). book r \<noteq> Some 2"
    by (simp_all add: example_defs book_example_defs)
  have "two_books\<lparr>books := filter (\<lambda>b. Book.id b \<noteq> 2) (books two_books)\<rparr> = example_catalog"
    by (simp add: example_defs book_example_defs)
  with r1 r2 show ?thesis
    using Book_delete_restricted [OF f1] Book_delete_restricted [OF f2]
    by (simp add: after_def)
qed

text \<open>
  C6: deleting an author keeps every book: the table of books has the same length, and
  each row is the row it was with \<^verbatim>\<open>author\<close> set to null if it was the deleted author
  (all other fields as before); genres and instances are untouched.
\<close>

theorem Author_delete_sets_null:
  assumes "find (\<lambda>a. Author.id a = pk) (authors db) = Some obj"
  shows "\<exists>db'. Author_delete pk db = Inr db'
      \<and> authors db' = filter (\<lambda>a. Author.id a \<noteq> pk) (authors db)
      \<and> genres db' = genres db \<and> instances db' = instances db
      \<and> length (books db') = length (books db)
      \<and> (\<forall>i < length (books db).
            books db' ! i
              = (books db ! i)\<lparr>author := (if author (books db ! i) = Some pk then None
                                          else author (books db ! i))\<rparr>)"
  using assms
  by (simp add: Author_delete_def Book_author_on_delete_def)

theorem Author_delete_sets_null_witness:
  "Author_delete 1 two_books
     = Inr (two_books\<lparr>authors := [austen], books := [earthsea\<lparr>author := None\<rparr>, emma]\<rparr>)"
proof -
  have "find (\<lambda>a. Author.id a = 1) (authors two_books) = Some le_guin"
    by (simp add: example_defs book_example_defs)
  from Author_delete_sets_null [OF this]
  obtain db' where d: "Author_delete 1 two_books = Inr db'"
    and a: "authors db' = filter (\<lambda>a. Author.id a \<noteq> 1) (authors two_books)"
    and g: "genres db' = genres two_books" and i: "instances db' = instances two_books"
    and l: "length (books db') = length (books two_books)"
    and b: "\<forall>i < length (books two_books).
            books db' ! i
              = (books two_books ! i)\<lparr>author := (if author (books two_books ! i) = Some 1 then None
                                          else author (books two_books ! i))\<rparr>"
    by blast
  have bs: "books two_books = [earthsea, emma]"
    by (simp add: two_books_def)
  from l bs obtain x y where xy: "books db' = [x, y]"
    by (cases "books db'" rule: list.exhaust; cases "tl (books db')") auto
  from b bs have "books db' ! 0 = earthsea\<lparr>author := None\<rparr>" "books db' ! 1 = emma"
    by (simp_all add: earthsea_def emma_def)
  with xy have "books db' = [earthsea\<lparr>author := None\<rparr>, emma]" by simp
  moreover from a have "authors db' = [austen]"
    by (simp add: example_defs book_example_defs)
  ultimately have "db' = two_books\<lparr>authors := [austen], books := [earthsea\<lparr>author := None\<rparr>, emma]\<rparr>"
    using g i by (cases db') (simp add: example_defs book_example_defs)
  with d show ?thesis by simp
qed

text \<open>
  C8, as amended: in every reachable catalog each \<^verbatim>\<open>isbn\<close> has at most 13
  characters and no two books share one (and the primary keys of the books are distinct);
  creating a book keeps this, and so does changing a book in a table whose primary keys are
  distinct.
\<close>

theorem isbn_invariant_reachable:
  "(reachable db \<longrightarrow> isbn_invariant db \<and> Book_pk_invariant db)
   \<and> (isbn_invariant db \<and> Book_create new_pk f db = Inr db' \<longrightarrow> isbn_invariant db')
   \<and> (isbn_invariant db \<and> Book_pk_invariant db \<and> Book_update pk f db = Inr db'
        \<longrightarrow> isbn_invariant db')"
  using reachable_invariants Book_create_isbn_invariant Book_update_isbn_invariant
  by blast

theorem isbn_invariant_reachable_witness:
  "isbn_invariant example_catalog
   \<and> isbn_invariant two_books
   \<and> isbn_invariant (example_catalog\<lparr>books := [earthsea, emma\<lparr>isbn := ''9780141439587''\<rparr>]\<rparr>)"
proof -
  have pk: "Book_pk_invariant two_books"
    by (simp add: Book_pk_invariant_def example_defs book_example_defs)
  from isbn_invariant_reachable
         [where db = example_catalog and new_pk = 2 and f = emma_form and db' = two_books]
  have 1: "isbn_invariant example_catalog" and 2: "isbn_invariant two_books"
    using example_reachable example_create_emma by blast+
  from isbn_invariant_reachable
         [where db = two_books and pk = 2
            and f = "emma_form\<lparr>form_isbn := ''9780141439587''\<rparr>"
            and db' = "example_catalog\<lparr>books := [earthsea, emma\<lparr>isbn := ''9780141439587''\<rparr>]\<rparr>"]
  have "isbn_invariant (example_catalog\<lparr>books := [earthsea, emma\<lparr>isbn := ''9780141439587''\<rparr>]\<rparr>)"
    using 2 pk example_update_emma by blast
  with 1 2 show ?thesis by simp
qed

text \<open>
  C8, as stated, fails: \<^verbatim>\<open>max_length=13\<close> is an upper bound, so a book with a
  three-character \<^verbatim>\<open>isbn\<close> is accepted and the catalog that holds it is reachable.
\<close>

theorem short_isbn_reachable:
  "Book_create 2 emma_form example_catalog = Inr two_books
   \<and> reachable two_books
   \<and> isbn (books two_books ! 1) = ''123''
   \<and> length (isbn (books two_books ! 1)) \<noteq> 13"
  using example_create_emma two_books_reachable
  by (simp add: two_books_def emma_def)

end
